theory Spec2Isabelle
  imports Main
begin

section \<open>The retrying transport (ai_review/libs/http/transports/retry.py)\<close>

text \<open>
  \<^verbatim>\<open>RetryTransport.handle_async_request\<close> wraps the one-shot
  \<^verbatim>\<open>self.transport.handle_async_request(request)\<close> in
  \<^verbatim>\<open>for attempt in range(self.max_retries)\<close>.  The model keeps everything the
  method does that a caller or a test double can observe: the value returned or the
  exception raised, and the ordered list of effects (calls of the underlying transport,
  warnings, sleeps, the final error record).

  A request is read only through \<^verbatim>\<open>request.method\<close> and \<^verbatim>\<open>request.url\<close>, a
  response only through \<^verbatim>\<open>status_code\<close>; the remaining payload is carried along
  untouched in \<open>content\<close>.
\<close>

record request =
  req_method :: string
  req_url :: string

record response =
  status_code :: int
  content :: string

text \<open>
  One call of the underlying transport either returns a response or raises an exception
  of type \<open>'e\<close>.  The underlying transport is not part of the repository and may answer
  differently every time it is called, so it is a function of the request and of the
  number of the call (\<open>0\<close> for the first one, as \<^verbatim>\<open>attempt\<close> in the source).
\<close>

datatype 'e outcome = Returns response | Raises 'e

type_synonym 'e transport = "request \<Rightarrow> nat \<Rightarrow> 'e outcome"

text \<open>
  The fields of \<^verbatim>\<open>RetryTransport\<close>.  \<^verbatim>\<open>max_retries\<close> is used as
  \<^verbatim>\<open>range(self.max_retries)\<close> and printed in messages; the constructor takes any
  integer, and \<^verbatim>\<open>range\<close> of a negative number is empty, as \<^verbatim>\<open>range(0)\<close> is.
  \<^verbatim>\<open>retry_status_codes\<close> is the tuple of status codes.  \<^verbatim>\<open>retry_exceptions\<close> is a
  tuple of exception classes used only in \<^verbatim>\<open>isinstance(e, self.retry_exceptions)\<close>; the
  field of the model is that test.  \<^verbatim>\<open>retry_delay\<close> is a float that is only passed to
  \<^verbatim>\<open>asyncio.sleep\<close> and printed; each sleep is recorded as the effect \<open>Sleep\<close>.
\<close>

record 'e retry_transport =
  max_retries :: int
  retry_status_codes :: "int list"
  retry_exceptions :: "'e \<Rightarrow> bool"

datatype event =
    Call nat      \<comment> \<open>\<^verbatim>\<open>await self.transport.handle_async_request(request)\<close>, with \<^verbatim>\<open>attempt\<close>\<close>
  | Warning nat   \<comment> \<open>\<^verbatim>\<open>self.logger.warning(...)\<close>, with the printed \<^verbatim>\<open>attempt + 1\<close>\<close>
  | Sleep         \<comment> \<open>\<^verbatim>\<open>await asyncio.sleep(self.retry_delay)\<close>\<close>
  | Error_log     \<comment> \<open>\<^verbatim>\<open>self.logger.error(...)\<close>\<close>

text \<open>
  What \<^verbatim>\<open>handle_async_request\<close> can raise: the caught exception itself
  (\<^verbatim>\<open>raise e\<close>), or a new builtin \<^verbatim>\<open>Exception\<close> built from a message.
\<close>

datatype 'e raised = Reraised 'e | Exception string

text \<open>How the \<^verbatim>\<open>for\<close> loop is left: by \<^verbatim>\<open>return\<close>, by \<^verbatim>\<open>raise\<close>, or by running
  out of attempts with the current value of \<^verbatim>\<open>last_response\<close>.\<close>

datatype 'e loop_exit = Return response | Raise 'e | Completed "response option"

fun for_attempts ::
  "'e retry_transport \<Rightarrow> 'e transport \<Rightarrow> request \<Rightarrow> nat list \<Rightarrow> response option
     \<Rightarrow> 'e loop_exit \<times> event list" where
  "for_attempts T transport request [] last_response = (Completed last_response, [])"
| "for_attempts T transport request (attempt # rest) last_response =
     (case transport request attempt of
        Returns r \<Rightarrow>
          if status_code r \<notin> set (retry_status_codes T) then (Return r, [Call attempt])
          else (case for_attempts T transport request rest (Some r) of
                  (exit, evs) \<Rightarrow> (exit, Call attempt # Warning (attempt + 1) # Sleep # evs))
      | Raises e \<Rightarrow>
          if retry_exceptions T e
          then (case for_attempts T transport request rest last_response of
                  (exit, evs) \<Rightarrow> (exit, Call attempt # Warning (attempt + 1) # Sleep # evs))
          else (Raise e, [Call attempt]))"

text \<open>Python's \<^verbatim>\<open>str\<close> of an integer, for the f-string of the message.\<close>

fun str_nat :: "nat \<Rightarrow> string" where
  "str_nat n =
     (if n < 10 then [''0123456789'' ! n] else str_nat (n div 10) @ [''0123456789'' ! (n mod 10)])"

definition str_int :: "int \<Rightarrow> string" where
  "str_int i = (if i < 0 then CHR ''-'' # str_nat (nat (- i)) else str_nat (nat i))"

definition all_attempts_failed :: "int \<Rightarrow> request \<Rightarrow> string" where
  "all_attempts_failed n request =
     ''All '' @ str_int n @ '' attempts failed for '' @ req_method request @ '' '' @ req_url request"

text \<open>
  After the loop: \<^verbatim>\<open>if last_response:\<close> tests the object for truth.  A response object
  defines neither \<^verbatim>\<open>__bool__\<close> nor \<^verbatim>\<open>__len__\<close>, so the test is
  \<^verbatim>\<open>last_response is not None\<close>.  The attempts of \<^verbatim>\<open>range(self.max_retries)\<close> are
  \<open>0\<close>, ..., \<open>max_retries - 1\<close>, none when \<^verbatim>\<open>max_retries\<close> is not positive.
\<close>

definition handle_async_request ::
  "'e retry_transport \<Rightarrow> 'e transport \<Rightarrow> request \<Rightarrow> ('e raised + response) \<times> event list" where
  "handle_async_request T transport request =
     (case for_attempts T transport request [0..<nat (max_retries T)] None of
        (Return r, evs) \<Rightarrow> (Inr r, evs)
      | (Raise e, evs) \<Rightarrow> (Inl (Reraised e), evs)
      | (Completed (Some r), evs) \<Rightarrow> (Inr r, evs @ [Error_log])
      | (Completed None, evs) \<Rightarrow>
          (Inl (Exception (all_attempts_failed (max_retries T) request)), evs))"

text \<open>The attempts made: the calls of the underlying transport among the effects.\<close>

fun is_call :: "event \<Rightarrow> bool" where
  "is_call (Call a) = True"
| "is_call e = False"

definition attempts_made :: "event list \<Rightarrow> nat" where
  "attempts_made evs = length (filter is_call evs)"

definition sleeps :: "event list \<Rightarrow> nat" where
  "sleeps evs = length (filter (\<lambda>e. e = Sleep) evs)"

text \<open>
  The exceptions of the examples: the three the source imports from httpx, an instance of
  the builtin \<^verbatim>\<open>Exception\<close> itself (\<^verbatim>\<open>Exception(message)\<close>), and an exception of some
  other class.
\<close>

datatype httpx_exception =
  ReadTimeout | ConnectTimeout | NetworkError | Plain_exception string | Other_exception string

text \<open>
  Python's \<^verbatim>\<open>type(e)\<close>.  What \<^verbatim>\<open>raise Exception(...)\<close> raises is an instance of the
  builtin \<^verbatim>\<open>Exception\<close>; what \<^verbatim>\<open>raise e\<close> raises has the type of \<open>e\<close>.
\<close>

datatype exception_class =
  Class_Exception | Class_ReadTimeout | Class_ConnectTimeout | Class_NetworkError | Class_other

fun type_of_exception :: "httpx_exception \<Rightarrow> exception_class" where
  "type_of_exception ReadTimeout = Class_ReadTimeout"
| "type_of_exception ConnectTimeout = Class_ConnectTimeout"
| "type_of_exception NetworkError = Class_NetworkError"
| "type_of_exception (Plain_exception message) = Class_Exception"
| "type_of_exception (Other_exception message) = Class_other"

fun type_of_raised :: "('e \<Rightarrow> exception_class) \<Rightarrow> 'e raised \<Rightarrow> exception_class" where
  "type_of_raised type_of (Reraised e) = type_of e"
| "type_of_raised type_of (Exception message) = Class_Exception"

text \<open>The defaults of the constructor.\<close>

definition default_transport :: "httpx_exception retry_transport" where
  "default_transport =
     \<lparr>max_retries = 5,
      retry_status_codes = [502, 504, 503, 500],
      retry_exceptions = (\<lambda>e. e = ReadTimeout \<or> e = ConnectTimeout \<or> e = NetworkError)\<rparr>"

definition get_request :: request where
  "get_request = \<lparr>req_method = ''GET'', req_url = ''https://llm.example/v1/chat''\<rparr>"

section \<open>The prompt chunker (ai_review/services/prompt/service.py)\<close>

subsection \<open>Strings and the token counter\<close>

text \<open>
  \<^verbatim>\<open>count_tokens\<close> (libs/llm/tokenizer.py) asks the tiktoken library when it can be
  imported and otherwise computes \<^verbatim>\<open>len(text) // 4 + 1\<close>.  The library is not part of
  the repository, so the chunker takes the counter as a parameter; the fallback is the
  instance that the repository itself defines.

  A text is a list of characters, \<^verbatim>\<open>len\<close> its length.  Of the characters only the
  newline and those of the marker \<^verbatim>\<open># File:\<close> are ever looked at.
\<close>

definition fallback_count_tokens :: "string \<Rightarrow> int" where
  "fallback_count_tokens text = int (length text) div 4 + 1"

text \<open>\<^verbatim>\<open>s.split("\n")\<close>: never empty, one more element than there are newlines.\<close>

fun split_newline :: "string \<Rightarrow> string list" where
  "split_newline [] = [[]]"
| "split_newline (c # cs) =
     (if c = CHR 0x0A then [] # split_newline cs
      else (case split_newline cs of [] \<Rightarrow> [[c]] | l # ls \<Rightarrow> (c # l) # ls))"

text \<open>\<^verbatim>\<open>"\n".join(xs)\<close>\<close>

fun join_newline :: "string list \<Rightarrow> string" where
  "join_newline [] = []"
| "join_newline [l] = l"
| "join_newline (l # ls) = l @ CHR 0x0A # join_newline ls"

text \<open>\<^verbatim>\<open>line.startswith("# File:")\<close>\<close>

definition is_file_header :: "string \<Rightarrow> bool" where
  "is_file_header line = (take 7 line = ''# File:'')"

subsection \<open>\<^verbatim>\<open>_split_large_line\<close>\<close>

text \<open>
  \<^verbatim>\<open>for i in range(0, len(line), max_chars): chunks.append(line[i:i + max_chars])\<close>.
  \<open>slices\<close> is the loop from index \<open>i\<close> on, for a positive step.  \<^verbatim>\<open>range\<close> raises
  \<^verbatim>\<open>ValueError\<close> for the step \<open>0\<close> and is empty for a negative step.
\<close>

datatype error = ValueError

function slices :: "string \<Rightarrow> nat \<Rightarrow> nat \<Rightarrow> string list" where
  "slices line max_chars i =
     (if max_chars = 0 \<or> length line \<le> i then []
      else take max_chars (drop i line) # slices line max_chars (i + max_chars))"
  by pat_completeness auto
termination
  by (relation "measure (\<lambda>(line, max_chars, i). length line - i)") auto

declare slices.simps [simp del]

definition split_large_line :: "string \<Rightarrow> int \<Rightarrow> error + string list" where
  "split_large_line line max_tokens =
     (let avg_chars_per_token = 4;
          max_chars = max_tokens * avg_chars_per_token
      in if max_chars = 0 then Inl ValueError
         else if max_chars < 0 then Inr []
         else Inr (slices line (nat max_chars) 0))"

subsection \<open>\<^verbatim>\<open>_split_large_section\<close>\<close>

text \<open>
  The body of \<^verbatim>\<open>for i, line in enumerate(lines)\<close>, with the three variables the loop
  updates.  \<^verbatim>\<open>header\<close> is \<^verbatim>\<open>None\<close> or a line that starts with \<^verbatim>\<open># File:\<close>, so
  \<^verbatim>\<open>if header\<close> is \<^verbatim>\<open>header is not None\<close>.
\<close>

fun section_lines ::
  "(string \<Rightarrow> int) \<Rightarrow> int \<Rightarrow> string option \<Rightarrow> (nat \<times> string) list
     \<Rightarrow> string list \<Rightarrow> string list \<Rightarrow> int \<Rightarrow> error + string list" where
  "section_lines count_tokens max_tokens header [] chunks current_chunk current_tokens =
     Inr (if current_chunk \<noteq> [] then chunks @ [join_newline current_chunk] else chunks)"
| "section_lines count_tokens max_tokens header ((i, line) # rest) chunks current_chunk current_tokens =
     (let line_tokens = count_tokens line in
      if current_tokens + line_tokens \<le> max_tokens
      then section_lines count_tokens max_tokens header rest chunks
             (current_chunk @ [line]) (current_tokens + line_tokens)
      else
        (let restart = (case header of Some h \<Rightarrow> 0 < i | None \<Rightarrow> False);
             chunks1 = (if current_chunk \<noteq> [] then chunks @ [join_newline current_chunk] else chunks);
             chunk1 = (if current_chunk \<noteq> [] then (if restart then [the header] else [])
                       else current_chunk);
             tokens1 = (if current_chunk \<noteq> [] then (if restart then count_tokens (the header) else 0)
                        else current_tokens)
         in if count_tokens line \<le> max_tokens
            then
              (let chunk2 = (if chunk1 = [] \<and> header \<noteq> None then [the header] else chunk1);
                   tokens2 = (if chunk1 = [] \<and> header \<noteq> None then count_tokens (the header)
                              else tokens1)
               in section_lines count_tokens max_tokens header rest chunks1
                    (chunk2 @ [line]) (tokens2 + line_tokens))
            else
              (case split_large_line line max_tokens of
                 Inl e \<Rightarrow> Inl e
               | Inr sub_chunks \<Rightarrow>
                   section_lines count_tokens max_tokens header rest
                     (chunks1 @ (case header of
                                   Some h \<Rightarrow> map (\<lambda>chunk. h @ CHR 0x0A # chunk) sub_chunks
                                 | None \<Rightarrow> sub_chunks))
                     chunk1 tokens1)))"

definition split_large_section :: "(string \<Rightarrow> int) \<Rightarrow> string \<Rightarrow> int \<Rightarrow> error + string list" where
  "split_large_section count_tokens section max_tokens =
     (let lines = split_newline section;
          header = (case lines of
                      l # ls \<Rightarrow> if is_file_header l then Some l else None
                    | [] \<Rightarrow> None)
      in section_lines count_tokens max_tokens header (enumerate 0 lines) [] [] 0)"

subsection \<open>\<^verbatim>\<open>split_prompt\<close>\<close>

text \<open>
  The \<^verbatim>\<open>while i < len(lines)\<close> loop.  The third argument is what is left of the lines,
  \<^verbatim>\<open>lines[i:]\<close>; the inner \<^verbatim>\<open>while\<close> that collects a file section takes the lines up
  to the next header.  A line that does not fit while the current chunk is non-empty
  flushes the chunk and is looked at again (\<^verbatim>\<open>i\<close> is not advanced).
\<close>

function split_loop ::
  "(string \<Rightarrow> int) \<Rightarrow> int \<Rightarrow> string list \<Rightarrow> string list \<Rightarrow> string list \<Rightarrow> int
     \<Rightarrow> error + string list" where
  "split_loop count_tokens available_tokens [] chunks current_chunk current_tokens =
     Inr (if current_chunk \<noteq> [] then chunks @ [join_newline current_chunk] else chunks)"
| "split_loop count_tokens available_tokens (line # rest) chunks current_chunk current_tokens =
     (if is_file_header line then
        (let chunks1 = (if current_chunk \<noteq> [] then chunks @ [join_newline current_chunk] else chunks);
             tokens1 = (if current_chunk \<noteq> [] then 0 else current_tokens);
             file_section = line # takeWhile (\<lambda>l. \<not> is_file_header l) rest;
             rest1 = dropWhile (\<lambda>l. \<not> is_file_header l) rest;
             file_text = join_newline file_section;
             file_tokens = count_tokens file_text
         in if file_tokens \<le> available_tokens
            then split_loop count_tokens available_tokens rest1 (chunks1 @ [file_text]) [] tokens1
            else (case split_large_section count_tokens file_text available_tokens of
                    Inl e \<Rightarrow> Inl e
                  | Inr sub_chunks \<Rightarrow>
                      split_loop count_tokens available_tokens rest1 (chunks1 @ sub_chunks) [] tokens1))
      else
        (let line_tokens = count_tokens line in
         if current_tokens + line_tokens \<le> available_tokens
         then split_loop count_tokens available_tokens rest chunks
                (current_chunk @ [line]) (current_tokens + line_tokens)
         else if current_chunk \<noteq> []
         then split_loop count_tokens available_tokens (line # rest)
                (chunks @ [join_newline current_chunk]) [] 0
         else (case split_large_line line available_tokens of
                 Inl e \<Rightarrow> Inl e
               | Inr sub_chunks \<Rightarrow>
                   split_loop count_tokens available_tokens rest (chunks @ sub_chunks)
                     current_chunk current_tokens)))"
  by pat_completeness auto
termination
proof -
  have d: "2 * length (dropWhile P xs) < Suc (Suc (2 * length xs))"
    "2 * length (dropWhile P xs) < Suc (Suc (Suc (2 * length xs)))" for P and xs :: "string list"
    using length_dropWhile_le [of P xs] by simp_all
  show ?thesis
    by (relation "measure (\<lambda>(count_tokens, available_tokens, lines, chunks, current_chunk, current_tokens).
                    2 * length lines + (if current_chunk = [] then 0 else 1))")
       (auto simp: d)
qed

text \<open>
  \<^verbatim>\<open>system_tokens = count_tokens(system_prompt) if system_prompt else 0\<close>: the empty
  system prompt costs nothing, whatever the counter says of the empty string.
\<close>

definition system_tokens :: "(string \<Rightarrow> int) \<Rightarrow> string \<Rightarrow> int" where
  "system_tokens count_tokens system_prompt =
     (if system_prompt \<noteq> [] then count_tokens system_prompt else 0)"

definition available_tokens :: "(string \<Rightarrow> int) \<Rightarrow> int \<Rightarrow> string \<Rightarrow> int" where
  "available_tokens count_tokens max_tokens system_prompt =
     max_tokens - system_tokens count_tokens system_prompt - 100"

definition split_prompt :: "(string \<Rightarrow> int) \<Rightarrow> string \<Rightarrow> int \<Rightarrow> string \<Rightarrow> error + string list" where
  "split_prompt count_tokens prompt max_tokens system_prompt =
     (let available = available_tokens count_tokens max_tokens system_prompt in
      if available \<le> 0 then Inr []
      else if count_tokens prompt \<le> available then Inr [prompt]
      else split_loop count_tokens available (split_newline prompt) [] [] 0)"

section \<open>Vocabulary of the properties\<close>

text \<open>
  An attempt is retried when it returns a status of \<^verbatim>\<open>retry_status_codes\<close> or raises an
  exception that passes the \<^verbatim>\<open>isinstance\<close> test.
\<close>

definition retryable :: "'e retry_transport \<Rightarrow> 'e outcome \<Rightarrow> bool" where
  "retryable T out =
     (case out of
        Returns r \<Rightarrow> status_code r \<in> set (retry_status_codes T)
      | Raises e \<Rightarrow> retry_exceptions T e)"

text \<open>The effects of attempts that are all retried: call, warning, sleep, for each.\<close>

definition retry_events :: "nat list \<Rightarrow> event list" where
  "retry_events as = concat (map (\<lambda>a. [Call a, Warning (a + 1), Sleep]) as)"

text \<open>The value of \<^verbatim>\<open>last_response\<close> after the given attempts.\<close>

definition last_seen ::
  "'e transport \<Rightarrow> request \<Rightarrow> nat list \<Rightarrow> response option \<Rightarrow> response option" where
  "last_seen transport request as lr =
     fold (\<lambda>a lr. case transport request a of Returns r \<Rightarrow> Some r | Raises e \<Rightarrow> lr) as lr"

text \<open>Responses and an underlying transport for the examples.\<close>

definition r503 :: response where
  "r503 = \<lparr>status_code = 503, content = ''upstream unavailable''\<rparr>"

definition r200 :: response where
  "r200 = \<lparr>status_code = 200, content = ''ok''\<rparr>"

definition flaky :: "httpx_exception transport" where
  "flaky request attempt =
     (if attempt = 0 then Returns r503
      else if attempt = 1 then Raises ConnectTimeout
      else Returns r200)"

text \<open>The header lines of a chunk.\<close>

definition header_lines :: "string \<Rightarrow> string list" where
  "header_lines chunk = filter is_file_header (split_newline chunk)"

text \<open>\<^verbatim>\<open>if current_chunk: chunks.append("\n".join(current_chunk))\<close>, as the chunks added.\<close>

definition flush :: "string list \<Rightarrow> string list" where
  "flush current_chunk = (if current_chunk \<noteq> [] then [join_newline current_chunk] else [])"

text \<open>A file section: a header line followed by lines that are not headers.\<close>

definition file_section :: "string list \<Rightarrow> bool" where
  "file_section s =
     (case s of
        [] \<Rightarrow> False
      | h # body \<Rightarrow> is_file_header h \<and> list_all (\<lambda>l. \<not> is_file_header l) body)"

section \<open>Lemmas about the retry loop\<close>

lemma retry_events_simps [simp]:
  "retry_events [] = []"
  "retry_events (a # as) = Call a # Warning (a + 1) # Sleep # retry_events as"
  "retry_events (as @ bs) = retry_events as @ retry_events bs"
  by (simp_all add: retry_events_def)

lemma attempts_made_simps [simp]:
  "attempts_made [] = 0"
  "attempts_made (Call a # evs) = Suc (attempts_made evs)"
  "attempts_made (Warning n # evs) = attempts_made evs"
  "attempts_made (Sleep # evs) = attempts_made evs"
  "attempts_made (Error_log # evs) = attempts_made evs"
  "attempts_made (evs @ evs') = attempts_made evs + attempts_made evs'"
  by (simp_all add: attempts_made_def)

lemma attempts_made_retry_events [simp]: "attempts_made (retry_events as) = length as"
  by (induction as) simp_all

text \<open>While the attempts are retried the loop goes on, and only \<^verbatim>\<open>last_response\<close> changes.\<close>

lemma for_attempts_retried:
  assumes "\<forall>a \<in> set as. retryable T (transport request a)"
  shows "for_attempts T transport request (as @ bs) lr =
           (case for_attempts T transport request bs (last_seen transport request as lr) of
              (exit, evs) \<Rightarrow> (exit, retry_events as @ evs))"
  using assms
  by (induction as arbitrary: lr)
     (auto simp: retryable_def last_seen_def split: outcome.splits prod.splits)

lemma last_seen_all_raise:
  "\<forall>a \<in> set as. \<exists>e. transport request a = Raises e \<Longrightarrow>
     last_seen transport request as lr = lr"
  by (induction as arbitrary: lr) (auto simp: last_seen_def)

lemma last_seen_snoc_Returns:
  "transport request a = Returns r \<Longrightarrow> last_seen transport request (as @ [a]) lr = Some r"
  by (simp add: last_seen_def)

lemma upt_5: "[0..<5] = [0, 1, 2, 3, 4]"
  by (simp add: upt_rec)

section \<open>Lemmas about the chunker\<close>

lemma concat_slices: "0 < max_chars \<Longrightarrow> concat (slices line max_chars i) = drop i line"
proof (induction line max_chars i rule: slices.induct)
  case (1 line max_chars i)
  show ?case
  proof (cases "length line \<le> i")
    case True
    then show ?thesis by (subst slices.simps) simp
  next
    case False
    with 1 have ih: "concat (slices line max_chars (i + max_chars)) = drop (i + max_chars) line"
      by simp
    have "take max_chars (drop i line) @ drop max_chars (drop i line) = drop i line"
      by (rule append_take_drop_id)
    then have "take max_chars (drop i line) @ drop (i + max_chars) line = drop i line"
      by (simp add: add.commute)
    with False 1(2) ih show ?thesis
      by (subst slices.simps) simp
  qed
qed

lemma split_newline_not_Nil [simp]: "split_newline s \<noteq> []"
  by (induction s) (auto split: list.splits)

lemma split_newline_no_newline: "l \<in> set (split_newline s) \<Longrightarrow> CHR 0x0A \<notin> set l"
  by (induction s arbitrary: l) (auto split: if_splits list.splits)

lemma split_newline_line: "CHR 0x0A \<notin> set l \<Longrightarrow> split_newline l = [l]"
  by (induction l) auto

lemma split_newline_append:
  "CHR 0x0A \<notin> set l \<Longrightarrow> split_newline (l @ CHR 0x0A # s) = l # split_newline s"
  by (induction l) auto

text \<open>Splitting undoes joining, for lines without a newline.\<close>

lemma split_join_newline:
  "ls \<noteq> [] \<Longrightarrow> \<forall>l \<in> set ls. CHR 0x0A \<notin> set l \<Longrightarrow> split_newline (join_newline ls) = ls"
proof (induction ls rule: join_newline.induct)
  case 1
  then show ?case by simp
next
  case (2 l)
  then show ?case by (simp add: split_newline_line)
next
  case (3 l v va)
  then show ?case by (simp add: split_newline_append)
qed

text \<open>
  Lines that are not headers and whose counts add up to no more than the budget all go
  into the current chunk.
\<close>

lemma accumulate_lines:
  assumes "\<forall>l \<in> set pre. \<not> is_file_header l \<and> 0 \<le> count_tokens l"
    and "current_tokens + sum_list (map count_tokens pre) \<le> available"
  shows "split_loop count_tokens available (pre @ rest) chunks current_chunk current_tokens =
         split_loop count_tokens available rest chunks (current_chunk @ pre)
           (current_tokens + sum_list (map count_tokens pre))"
  using assms
proof (induction pre arbitrary: current_chunk current_tokens)
  case Nil
  then show ?case by simp
next
  case (Cons l pre)
  have nn: "0 \<le> sum_list (map count_tokens pre)"
    using Cons.prems(1) by (intro sum_list_nonneg) auto
  have fit: "current_tokens + count_tokens l \<le> available"
    using Cons.prems(2) nn by simp
  have "split_loop count_tokens available ((l # pre) @ rest) chunks current_chunk current_tokens =
        split_loop count_tokens available (pre @ rest) chunks (current_chunk @ [l])
          (current_tokens + count_tokens l)"
    using Cons.prems(1) fit by simp
  also have "\<dots> = split_loop count_tokens available rest chunks ((current_chunk @ [l]) @ pre)
          (current_tokens + count_tokens l + sum_list (map count_tokens pre))"
    using Cons.prems by (intro Cons.IH) (auto simp: add.assoc)
  finally show ?case by (simp add: add.assoc)
qed

lemma takeWhile_section:
  assumes "list_all (\<lambda>l. \<not> is_file_header l) body" "list_all file_section secs"
  shows "takeWhile (\<lambda>l. \<not> is_file_header l) (body @ concat secs) = body"
    and "dropWhile (\<lambda>l. \<not> is_file_header l) (body @ concat secs) = concat secs"
proof -
  have "takeWhile (\<lambda>l. \<not> is_file_header l) (concat secs) = [] \<and>
        dropWhile (\<lambda>l. \<not> is_file_header l) (concat secs) = concat secs"
    using assms(2) by (cases secs) (auto simp: file_section_def split: list.splits)
  then show "takeWhile (\<lambda>l. \<not> is_file_header l) (body @ concat secs) = body"
    and "dropWhile (\<lambda>l. \<not> is_file_header l) (body @ concat secs) = concat secs"
    using assms(1) by (simp_all add: takeWhile_append2 dropWhile_append2 list_all_iff)
qed

text \<open>File sections that fit are emitted one chunk each, after the pending chunk.\<close>

lemma emit_sections:
  assumes "list_all file_section secs"
    and "list_all (\<lambda>s. count_tokens (join_newline s) \<le> available) secs"
  shows "split_loop count_tokens available (concat secs) chunks current_chunk current_tokens =
         Inr (chunks @ flush current_chunk @ map join_newline secs)"
  using assms
proof (induction secs arbitrary: chunks current_chunk current_tokens)
  case Nil
  then show ?case by (simp add: flush_def)
next
  case (Cons s secs)
  from Cons.prems(1) obtain h body where s: "s = h # body" and h: "is_file_header h"
    and body: "list_all (\<lambda>l. \<not> is_file_header l) body"
    by (auto simp: file_section_def split: list.splits)
  from Cons.prems have secs: "list_all file_section secs"
    and fits: "list_all (\<lambda>s. count_tokens (join_newline s) \<le> available) secs"
    and fit: "count_tokens (join_newline (h # body)) \<le> available"
    by (simp_all add: s)
  note tw = takeWhile_section [OF body secs]
  have "split_loop count_tokens available (concat (s # secs)) chunks current_chunk current_tokens =
        split_loop count_tokens available (concat secs)
          ((chunks @ flush current_chunk) @ [join_newline s]) []
          (if current_chunk \<noteq> [] then 0 else current_tokens)"
    using h fit by (simp add: s tw flush_def Let_def)
  also have "\<dots> =
      Inr (((chunks @ flush current_chunk) @ [join_newline s]) @ flush [] @ map join_newline secs)"
    by (rule Cons.IH [OF secs fits])
  finally show ?case by (simp add: flush_def)
qed

text \<open>
  A section of two lines, a header and one more line, that each fit the budget while
  their counts together do not: \<^verbatim>\<open>_split_large_section\<close> flushes the header, starts the
  next chunk with the header again and adds the line to it, so the second chunk is the
  section itself.
\<close>

lemma two_line_section_returned_whole:
  assumes h: "is_file_header h" and nh: "CHR 0x0A \<notin> set h" and nl: "CHR 0x0A \<notin> set l"
    and ch: "count_tokens h \<le> available" and cl: "count_tokens l \<le> available"
    and over: "available < count_tokens h + count_tokens l"
  shows "split_large_section count_tokens (h @ CHR 0x0A # l) available =
           Inr [h, h @ CHR 0x0A # l]"
proof -
  have lines: "split_newline (h @ CHR 0x0A # l) = [h, l]"
    using nh nl by (simp add: split_newline_append split_newline_line)
  show ?thesis
    using h ch cl over
    by (simp add: split_large_section_def lines enumerate_eq_zip Let_def upt_rec)
qed

lemma two_line_prompt_returned_whole:
  assumes h: "is_file_header h" and l: "\<not> is_file_header l"
    and nh: "CHR 0x0A \<notin> set h" and nl: "CHR 0x0A \<notin> set l"
    and ch: "count_tokens h \<le> available_tokens count_tokens max_tokens system_prompt"
    and cl: "count_tokens l \<le> available_tokens count_tokens max_tokens system_prompt"
    and over:
      "available_tokens count_tokens max_tokens system_prompt < count_tokens h + count_tokens l"
    and whole:
      "available_tokens count_tokens max_tokens system_prompt < count_tokens (h @ CHR 0x0A # l)"
    and pos: "0 < available_tokens count_tokens max_tokens system_prompt"
  shows "split_prompt count_tokens (h @ CHR 0x0A # l) max_tokens system_prompt =
           Inr [h, h @ CHR 0x0A # l]"
proof -
  have lines: "split_newline (h @ CHR 0x0A # l) = [h, l]"
    using nh nl by (simp add: split_newline_append split_newline_line)
  show ?thesis
    using h l whole pos
    by (simp add: split_prompt_def lines Let_def
          two_line_section_returned_whole [OF h nh nl ch cl over])
qed

section \<open>The retrying transport: claims\<close>

text \<open>
  C2 (retry exhaustion with a response).  As stated, for every configuration: when every
  attempt returns a response with a retryable status, \<^verbatim>\<open>handle_async_request\<close> makes
  exactly \<^verbatim>\<open>max_retries\<close> attempts and returns the response of the last one.  This
  fails for \<^verbatim>\<open>max_retries = 0\<close>, where no attempt is made and the call raises (see the
  counterexample below).  Proved here for \<^verbatim>\<open>max_retries \<ge> 1\<close>: the call makes exactly
  \<^verbatim>\<open>max_retries\<close> attempts, each followed by a warning and a sleep, logs the error and
  returns, unchanged, the response that attempt number \<^verbatim>\<open>max_retries\<close> returned; nothing
  is raised.
\<close>

theorem retry_exhaustion_returns_last_response:
  assumes "0 < max_retries T"
    and "\<forall>a < nat (max_retries T).
           \<exists>r. transport request a = Returns r \<and> status_code r \<in> set (retry_status_codes T)"
  shows "\<exists>r. transport request (nat (max_retries T) - 1) = Returns r
           \<and> handle_async_request T transport request =
               (Inr r, retry_events [0..<nat (max_retries T)] @ [Error_log])
           \<and> int (attempts_made (snd (handle_async_request T transport request))) = max_retries T"
proof -
  let ?n = "nat (max_retries T)"
  let ?as = "[0..<?n]"
  have n: "0 < ?n"
    using assms(1) by simp
  obtain r where r: "transport request (?n - 1) = Returns r"
    using assms(2) n by (metis diff_less zero_less_one)
  have as: "?as = [0..<?n - 1] @ [?n - 1]"
    using n by (metis Suc_diff_1 upt_Suc_append zero_le)
  have rt: "\<forall>a \<in> set ?as. retryable T (transport request a)"
    using assms(2) by (auto simp: retryable_def)
  have l: "last_seen transport request ?as None = Some r"
    by (subst as)
       (rule last_seen_snoc_Returns [where transport = transport and request = request, OF r])
  have "for_attempts T transport request (?as @ []) None = (Completed (Some r), retry_events ?as)"
    by (simp only: for_attempts_retried [where transport = transport and request = request, OF rt] l)
       simp
  then have "handle_async_request T transport request = (Inr r, retry_events ?as @ [Error_log])"
    by (simp add: handle_async_request_def)
  with r assms(1) show ?thesis by simp
qed

theorem retry_exhaustion_returns_last_response_witness:
  "0 < max_retries default_transport \<and>
   handle_async_request default_transport (\<lambda>req a. Returns r503) get_request =
     (Inr r503,
      [Call 0, Warning 1, Sleep, Call 1, Warning 2, Sleep, Call 2, Warning 3, Sleep,
       Call 3, Warning 4, Sleep, Call 4, Warning 5, Sleep, Error_log])
   \<and> attempts_made
        (snd (handle_async_request default_transport (\<lambda>req a. Returns r503) get_request)) = 5"
proof -
  have p: "0 < max_retries default_transport"
    by (simp add: default_transport_def)
  have h: "\<forall>a < nat (max_retries default_transport).
        \<exists>r. (\<lambda>req a. Returns r503) get_request a = Returns r
            \<and> status_code r \<in> set (retry_status_codes default_transport)"
    by (simp add: default_transport_def r503_def)
  have m: "max_retries default_transport = 5"
    by (simp add: default_transport_def)
  show ?thesis
    using retry_exhaustion_returns_last_response
            [where transport = "\<lambda>req a. Returns r503" and request = get_request, OF p h]
    by (simp add: m upt_5)
qed

text \<open>
  With \<^verbatim>\<open>max_retries = 0\<close> and an underlying transport that always answers 503, a
  retryable status, nothing is returned: the call raises after no attempt at all.
\<close>

theorem retry_exhaustion_zero_retries_counterexample:
  "status_code r503 \<in> set (retry_status_codes (default_transport\<lparr>max_retries := 0\<rparr>)) \<and>
   handle_async_request (default_transport\<lparr>max_retries := 0\<rparr>) (\<lambda>req a. Returns r503) get_request =
     (Inl (Exception ''All 0 attempts failed for GET https://llm.example/v1/chat''), [])"
  by (simp add: handle_async_request_def all_attempts_failed_def str_int_def get_request_def
        default_transport_def r503_def)

text \<open>
  C3 (retry exhaustion without a response).  As stated: when every attempt raises a
  retryable exception, \<^verbatim>\<open>handle_async_request\<close> makes exactly \<^verbatim>\<open>max_retries\<close> attempts
  and raises a dedicated exhaustion error whose type is distinct from the type of the
  underlying exception.  The source has no error class of its own: it raises the builtin
  \<^verbatim>\<open>Exception\<close>, which is also the type of the underlying exception when the transport
  raises a plain \<^verbatim>\<open>Exception\<close> and \<^verbatim>\<open>retry_exceptions\<close> admits it; and for a negative
  \<^verbatim>\<open>max_retries\<close> no attempt is made (see the counterexample below).  Proved here for
  \<^verbatim>\<open>max_retries \<ge> 0\<close>: the call makes exactly \<^verbatim>\<open>max_retries\<close> attempts, each followed
  by a warning and a sleep, and then raises a new instance of the builtin \<^verbatim>\<open>Exception\<close>
  whose message holds \<^verbatim>\<open>max_retries\<close>, the method and the URL of the request.  It never
  re-raises an exception of the underlying transport, and its type differs from the type
  of every exception that is not itself a plain \<^verbatim>\<open>Exception\<close>.
\<close>

theorem retry_exhaustion_raises_exception:
  assumes "0 \<le> max_retries T"
    and "\<forall>a < nat (max_retries T). \<exists>e. transport request a = Raises e \<and> retry_exceptions T e"
  shows "handle_async_request T transport request =
           (Inl (Exception (''All '' @ str_int (max_retries T) @ '' attempts failed for '' @
                   req_method request @ '' '' @ req_url request)),
            retry_events [0..<nat (max_retries T)])
         \<and> int (attempts_made (snd (handle_async_request T transport request))) = max_retries T
         \<and> (\<forall>e. fst (handle_async_request T transport request) \<noteq> Inl (Reraised e))
         \<and> type_of_raised type_of (projl (fst (handle_async_request T transport request))) =
             Class_Exception
         \<and> (\<forall>e. type_of e \<noteq> Class_Exception \<longrightarrow>
               type_of_raised type_of (projl (fst (handle_async_request T transport request))) \<noteq>
                 type_of e)"
proof -
  let ?as = "[0..<nat (max_retries T)]"
  have r: "\<forall>a \<in> set ?as. retryable T (transport request a)"
    using assms(2) by (auto simp: retryable_def)
  have l: "last_seen transport request ?as None = None"
    using assms(2)
    by (intro last_seen_all_raise [where transport = transport and request = request]) auto
  have "for_attempts T transport request (?as @ []) None = (Completed None, retry_events ?as)"
    by (simp only: for_attempts_retried [where transport = transport and request = request, OF r] l)
       simp
  then have "handle_async_request T transport request =
           (Inl (Exception (''All '' @ str_int (max_retries T) @ '' attempts failed for '' @
                   req_method request @ '' '' @ req_url request)),
            retry_events ?as)"
    by (simp add: handle_async_request_def all_attempts_failed_def)
  with assms(1) show ?thesis
    by simp
qed

theorem retry_exhaustion_raises_exception_witness:
  "handle_async_request default_transport (\<lambda>req a. Raises ReadTimeout) get_request =
     (Inl (Exception ''All 5 attempts failed for GET https://llm.example/v1/chat''),
      [Call 0, Warning 1, Sleep, Call 1, Warning 2, Sleep, Call 2, Warning 3, Sleep,
       Call 3, Warning 4, Sleep, Call 4, Warning 5, Sleep])
   \<and> attempts_made
        (snd (handle_async_request default_transport (\<lambda>req a. Raises ReadTimeout) get_request)) = 5
   \<and> type_of_raised type_of_exception
        (projl (fst (handle_async_request default_transport (\<lambda>req a. Raises ReadTimeout)
                       get_request))) \<noteq> type_of_exception ReadTimeout"
proof -
  have p: "0 \<le> max_retries default_transport"
    by (simp add: default_transport_def)
  have h: "\<forall>a < nat (max_retries default_transport).
        \<exists>e. (\<lambda>req a. Raises ReadTimeout) get_request a = Raises e
            \<and> retry_exceptions default_transport e"
    by (simp add: default_transport_def)
  have m: "max_retries default_transport = 5"
    by (simp add: default_transport_def)
  show ?thesis
    using retry_exhaustion_raises_exception
            [where transport = "\<lambda>req a. Raises ReadTimeout" and request = get_request
               and type_of = type_of_exception, OF p h]
    by (simp add: m upt_5 get_request_def str_int_def)
qed

text \<open>
  Two configurations the constructor accepts.  With \<^verbatim>\<open>retry_exceptions = (Exception,)\<close>,
  a test that every caught exception passes, and an underlying transport that always
  raises \<^verbatim>\<open>Exception("boom")\<close>: what is raised after the five attempts has the type of
  the underlying exception, the builtin \<^verbatim>\<open>Exception\<close>.  With \<^verbatim>\<open>max_retries = -1\<close> and
  an underlying transport that always raises \<^verbatim>\<open>ReadTimeout\<close>: no attempt is made, not
  \<open>-1\<close> of them.
\<close>

theorem retry_exhaustion_same_type_counterexample:
  "retry_exceptions (default_transport\<lparr>retry_exceptions := (\<lambda>e. True)\<rparr>) (Plain_exception ''boom'')
   \<and> handle_async_request (default_transport\<lparr>retry_exceptions := (\<lambda>e. True)\<rparr>)
        (\<lambda>req a. Raises (Plain_exception ''boom'')) get_request =
       (Inl (Exception ''All 5 attempts failed for GET https://llm.example/v1/chat''),
        [Call 0, Warning 1, Sleep, Call 1, Warning 2, Sleep, Call 2, Warning 3, Sleep,
         Call 3, Warning 4, Sleep, Call 4, Warning 5, Sleep])
   \<and> type_of_raised type_of_exception
        (Exception ''All 5 attempts failed for GET https://llm.example/v1/chat'') =
       type_of_exception (Plain_exception ''boom'')
   \<and> retry_exceptions (default_transport\<lparr>max_retries := - 1\<rparr>) ReadTimeout
   \<and> handle_async_request (default_transport\<lparr>max_retries := - 1\<rparr>)
        (\<lambda>req a. Raises ReadTimeout) get_request =
       (Inl (Exception ''All -1 attempts failed for GET https://llm.example/v1/chat''), [])
   \<and> attempts_made [] = 0"
  by (simp add: handle_async_request_def all_attempts_failed_def str_int_def get_request_def
        default_transport_def upt_5)

text \<open>
  C8 (retry success).  For every \<open>k\<close> with \<open>1 \<le> k \<le> max_retries\<close>: when attempts \<open>1\<close> to
  \<open>k - 1\<close> each return a retryable status or raise a retryable exception and attempt
  \<open>k\<close> returns a response whose status is not retryable, \<^verbatim>\<open>handle_async_request\<close>
  returns that response and the underlying transport has been called exactly \<open>k\<close>
  times.  (Attempt \<open>k\<close> of the claim is call number \<open>k - 1\<close> of the model.)
\<close>

theorem retry_success_after_failures:
  assumes "1 \<le> k" and "int k \<le> max_retries T"
    and "\<forall>a < k - 1. retryable T (transport request a)"
    and "transport request (k - 1) = Returns r"
    and "status_code r \<notin> set (retry_status_codes T)"
  shows "handle_async_request T transport request =
           (Inr r, retry_events [0..<k - 1] @ [Call (k - 1)])
         \<and> attempts_made (snd (handle_async_request T transport request)) = k"
proof -
  let ?n = "nat (max_retries T)"
  have kn: "k \<le> ?n"
    using assms(2) by simp
  have a1: "[0..<?n] = [0..<k - 1] @ [k - 1..<?n]"
    using upt_add_eq_append [of 0 "k - 1" "?n - (k - 1)"] assms(1) kn by simp
  have a2: "[k - 1..<?n] = (k - 1) # [k..<?n]"
    using upt_conv_Cons [of "k - 1" ?n] assms(1) kn by simp
  have as: "[0..<?n] = [0..<k - 1] @ ((k - 1) # [k..<?n])"
    using a1 a2 by simp
  have rt: "\<forall>a \<in> set [0..<k - 1]. retryable T (transport request a)"
    using assms(3) by simp
  have "for_attempts T transport request [0..<?n] None =
          (Return r, retry_events [0..<k - 1] @ [Call (k - 1)])"
    using assms(4,5)
    by (subst as,
        subst for_attempts_retried [where transport = transport and request = request, OF rt])
       simp
  then have "handle_async_request T transport request =
          (Inr r, retry_events [0..<k - 1] @ [Call (k - 1)])"
    by (simp add: handle_async_request_def)
  then show ?thesis using assms(1) by simp
qed

theorem retry_success_after_failures_witness:
  "handle_async_request default_transport flaky get_request =
     (Inr r200, [Call 0, Warning 1, Sleep, Call 1, Warning 2, Sleep, Call 2])
   \<and> attempts_made (snd (handle_async_request default_transport flaky get_request)) = 3"
proof -
  have k: "(1::nat) \<le> 3" "int 3 \<le> max_retries default_transport"
    by (simp_all add: default_transport_def)
  have h: "\<forall>a < 3 - 1. retryable default_transport (flaky get_request a)"
    by (auto simp: retryable_def flaky_def default_transport_def r503_def less_Suc_eq numeral_2_eq_2)
  have s: "flaky get_request (3 - 1) = Returns r200"
    by (simp add: flaky_def)
  have n: "status_code r200 \<notin> set (retry_status_codes default_transport)"
    by (simp add: default_transport_def r200_def)
  have u: "retry_events [0..<2] = [Call 0, Warning 1, Sleep, Call 1, Warning 2, Sleep]"
    by (simp add: upt_rec)
  show ?thesis
    using retry_success_after_failures
            [where transport = flaky and request = get_request, OF k h s n]
    by (simp add: u)
qed

text \<open>
  C9 (non-retryable short circuit).  As stated, for every configuration: when the first
  attempt raises an exception that is not retryable, \<^verbatim>\<open>handle_async_request\<close> re-raises
  it after exactly one attempt.  This fails for \<^verbatim>\<open>max_retries = 0\<close>, where the underlying
  transport is never called and a different exception is raised (see the counterexample
  below).  Proved here for \<^verbatim>\<open>max_retries \<ge> 1\<close>: the call raises that same exception
  after exactly one call of the underlying transport, with no warning, no sleep and no
  second attempt.
\<close>

theorem non_retryable_exception_reraised:
  assumes "0 < max_retries T"
    and "transport request 0 = Raises e"
    and "\<not> retry_exceptions T e"
  shows "handle_async_request T transport request = (Inl (Reraised e), [Call 0])
         \<and> attempts_made (snd (handle_async_request T transport request)) = 1
         \<and> sleeps (snd (handle_async_request T transport request)) = 0"
proof -
  have "[0..<nat (max_retries T)] = 0 # [1..<nat (max_retries T)]"
    using assms(1) by (simp add: upt_conv_Cons)
  then have "handle_async_request T transport request = (Inl (Reraised e), [Call 0])"
    using assms(2,3) by (simp add: handle_async_request_def)
  then show ?thesis
    by (simp add: sleeps_def)
qed

theorem non_retryable_exception_reraised_witness:
  "handle_async_request default_transport (\<lambda>req a. Raises (Other_exception ''boom'')) get_request =
     (Inl (Reraised (Other_exception ''boom'')), [Call 0])"
proof -
  have p: "0 < max_retries default_transport"
    by (simp add: default_transport_def)
  have h: "(\<lambda>req a. Raises (Other_exception ''boom'')) get_request 0 =
             Raises (Other_exception ''boom'')"
    by simp
  have n: "\<not> retry_exceptions default_transport (Other_exception ''boom'')"
    by (simp add: default_transport_def)
  show ?thesis
    using non_retryable_exception_reraised
            [where transport = "\<lambda>req a. Raises (Other_exception ''boom'')", OF p h n]
    by simp
qed

text \<open>
  With \<^verbatim>\<open>max_retries = 0\<close> and an underlying transport whose first call would raise an
  exception that is not retryable, that exception is not what the call raises, and the
  underlying transport is not called.
\<close>

theorem non_retryable_zero_retries_counterexample:
  "\<not> retry_exceptions (default_transport\<lparr>max_retries := 0\<rparr>) (Other_exception ''boom'') \<and>
   handle_async_request (default_transport\<lparr>max_retries := 0\<rparr>)
       (\<lambda>req a. Raises (Other_exception ''boom'')) get_request =
     (Inl (Exception ''All 0 attempts failed for GET https://llm.example/v1/chat''), [])"
  by (simp add: handle_async_request_def all_attempts_failed_def str_int_def get_request_def
        default_transport_def)

text \<open>
  C10 (no retries configured).  With \<^verbatim>\<open>max_retries = 0\<close> the loop body never runs:
  for every request and every underlying transport \<^verbatim>\<open>handle_async_request\<close> raises the
  "All 0 attempts failed" exception and has no effect at all, so the underlying transport
  is never called.
\<close>

theorem zero_retries_raises_without_attempt:
  "max_retries T = 0 \<Longrightarrow>
     handle_async_request T transport request =
       (Inl (Exception (all_attempts_failed 0 request)), [])"
  by (simp add: handle_async_request_def)

theorem zero_retries_raises_without_attempt_witness:
  "max_retries (default_transport\<lparr>max_retries := 0\<rparr>) = 0 \<and>
   handle_async_request (default_transport\<lparr>max_retries := 0\<rparr>) (\<lambda>req a. Returns r200) get_request =
     (Inl (Exception ''All 0 attempts failed for GET https://llm.example/v1/chat''), [])"
proof -
  have "handle_async_request (default_transport\<lparr>max_retries := 0\<rparr>) (\<lambda>req a. Returns r200)
          get_request =
        (Inl (Exception (all_attempts_failed 0 get_request)), [])"
    by (rule zero_retries_raises_without_attempt) simp
  then show ?thesis
    by (simp add: all_attempts_failed_def str_int_def get_request_def)
qed

section \<open>The prompt chunker: claims\<close>

text \<open>
  C4 (fit invariant).  When the budget left for the prompt,
  \<^verbatim>\<open>available_tokens = max_tokens - system_tokens - 100\<close>, is positive and the prompt counts
  at most that many tokens, \<^verbatim>\<open>split_prompt\<close> returns the one-element list that holds the
  prompt itself.  This holds for every token counter.
\<close>

theorem split_prompt_fits:
  "0 < available_tokens count_tokens max_tokens system_prompt \<Longrightarrow>
   count_tokens prompt \<le> available_tokens count_tokens max_tokens system_prompt \<Longrightarrow>
     split_prompt count_tokens prompt max_tokens system_prompt = Inr [prompt]"
  by (simp add: split_prompt_def)

theorem split_prompt_fits_witness:
  "split_prompt fallback_count_tokens ''## Changes\<newline>\<newline># File: a.py\<newline>+ small change'' 2000 '''' =
     Inr [''## Changes\<newline>\<newline># File: a.py\<newline>+ small change'']"
proof -
  have a: "available_tokens fallback_count_tokens 2000 '''' = 1900"
    by (simp add: available_tokens_def system_tokens_def)
  show ?thesis
    by (rule split_prompt_fits) (simp_all add: a fallback_count_tokens_def)
qed

text \<open>
  C5 (degenerate budget).  As stated: when the token count of the system prompt plus the
  reserve of 100 reaches \<^verbatim>\<open>max_tokens\<close>, \<^verbatim>\<open>split_prompt\<close> returns the empty list.  The
  source does not count the empty system prompt:
  \<^verbatim>\<open>system_tokens = count_tokens(system_prompt) if system_prompt else 0\<close>, while the
  fallback counter gives the empty text one token, so the claim fails for the empty
  system prompt at \<^verbatim>\<open>max_tokens = 101\<close> (see the counterexample below).  Proved here, for
  every token counter: when \<^verbatim>\<open>system_tokens\<close> of the source, the count of a non-empty
  system prompt and \<open>0\<close> for the empty one, plus the reserve of 100 reaches
  \<^verbatim>\<open>max_tokens\<close>, \<^verbatim>\<open>split_prompt\<close> returns the empty list, whatever the prompt is, and it
  returns: nothing is raised.
\<close>

theorem split_prompt_degenerate_budget:
  "max_tokens \<le> system_tokens count_tokens system_prompt + 100 \<Longrightarrow>
     split_prompt count_tokens prompt max_tokens system_prompt = Inr []"
  by (simp add: split_prompt_def available_tokens_def)

theorem split_prompt_degenerate_budget_witness:
  "system_tokens fallback_count_tokens ''You are a reviewer.'' = 5 \<and>
   split_prompt fallback_count_tokens ''# File: a.py\<newline>+x'' 105 ''You are a reviewer.'' = Inr []"
proof -
  have t: "system_tokens fallback_count_tokens ''You are a reviewer.'' = 5"
    by (simp add: system_tokens_def fallback_count_tokens_def)
  have "split_prompt fallback_count_tokens ''# File: a.py\<newline>+x'' 105 ''You are a reviewer.'' = Inr []"
    by (rule split_prompt_degenerate_budget) (simp add: t)
  with t show ?thesis by simp
qed

text \<open>
  With the fallback counter the empty system prompt counts one token, and
  \<open>1 + 100 \<ge> 101\<close>; yet the budget the source computes is \<open>101 - 0 - 100 = 1\<close>, the
  prompt \<^verbatim>\<open>abc\<close> counts one token, and it is returned as the only chunk.
\<close>

theorem split_prompt_empty_system_prompt_counterexample:
  "fallback_count_tokens '''' = 1
   \<and> 101 \<le> fallback_count_tokens '''' + 100
   \<and> split_prompt fallback_count_tokens ''abc'' 101 '''' = Inr [''abc'']"
  by (simp add: split_prompt_def available_tokens_def system_tokens_def fallback_count_tokens_def)

text \<open>
  C6 (force-split completeness).  For every line and every positive token budget,
  \<^verbatim>\<open>_split_large_line\<close> returns slices whose concatenation, in order, is the line itself.
\<close>

theorem split_large_line_concat:
  "0 < max_tokens \<Longrightarrow>
     \<exists>chunks. split_large_line line max_tokens = Inr chunks \<and> concat chunks = line"
  by (simp add: split_large_line_def concat_slices)

theorem split_large_line_concat_witness:
  "split_large_line ''abcdefghij'' 1 = Inr [''abcd'', ''efgh'', ''ij'']
   \<and> concat [''abcd'', ''efgh'', ''ij''] = ''abcdefghij''"
  using split_large_line_concat [of 1 "''abcdefghij''"]
  by (simp add: split_large_line_def slices.simps)

text \<open>
  C7 (section integrity).  As stated: when every file section, and the content before the
  first header, fits the budget on its own and the whole prompt does not, \<^verbatim>\<open>split_prompt\<close>
  returns one chunk per section plus one leading chunk.  The lines before the first
  header are added to the leading chunk by the sum of their own token counts, not by the
  count of their joined text, so content that fits can still be cut into several chunks
  (see the counterexample below).  Proved here, for every token counter that is never
  negative on these lines: let the lines of the prompt be the lines \<open>pre\<close>, none of them a
  header, followed by the file sections \<open>secs\<close>.  When the budget is positive, the whole
  prompt does not fit, the token counts of the lines of \<open>pre\<close> add up to no more than the
  budget and every section fits the budget, \<^verbatim>\<open>split_prompt\<close> returns the lines of \<open>pre\<close>
  joined as one leading chunk (none when \<open>pre\<close> is empty) followed by exactly one chunk
  per section, the section itself, and each of these holds exactly one header line.
\<close>

theorem split_prompt_sections:
  assumes lines: "split_newline prompt = pre @ concat secs"
    and pre: "\<forall>l \<in> set pre. \<not> is_file_header l \<and> 0 \<le> count_tokens l"
    and secs: "list_all file_section secs"
    and avail: "0 < available_tokens count_tokens max_tokens system_prompt"
    and whole: "available_tokens count_tokens max_tokens system_prompt < count_tokens prompt"
    and pre_fits:
      "sum_list (map count_tokens pre) \<le> available_tokens count_tokens max_tokens system_prompt"
    and secs_fit:
      "list_all (\<lambda>s. count_tokens (join_newline s)
                   \<le> available_tokens count_tokens max_tokens system_prompt) secs"
  shows "split_prompt count_tokens prompt max_tokens system_prompt =
           Inr (flush pre @ map join_newline secs)
         \<and> length (flush pre @ map join_newline secs) = (if pre = [] then 0 else 1) + length secs
         \<and> list_all (\<lambda>chunk. length (header_lines chunk) = 1) (map join_newline secs)"
proof -
  let ?a = "available_tokens count_tokens max_tokens system_prompt"
  have "split_prompt count_tokens prompt max_tokens system_prompt =
        split_loop count_tokens ?a (pre @ concat secs) [] [] 0"
    using avail whole by (simp add: split_prompt_def lines)
  also have "\<dots> =
      split_loop count_tokens ?a (concat secs) [] ([] @ pre) (0 + sum_list (map count_tokens pre))"
    using pre pre_fits by (intro accumulate_lines) auto
  also have "\<dots> = Inr ([] @ flush pre @ map join_newline secs)"
    using emit_sections [OF secs secs_fit] by simp
  finally have 1: "split_prompt count_tokens prompt max_tokens system_prompt =
           Inr (flush pre @ map join_newline secs)" by simp
  have 2: "length (flush pre @ map join_newline secs) = (if pre = [] then 0 else 1) + length secs"
    by (simp add: flush_def)
  have 3: "length (header_lines (join_newline s)) = 1" if "s \<in> set secs" for s
  proof -
    from that secs have "file_section s"
      by (simp add: list_all_iff)
    then obtain h body where s: "s = h # body" and h: "is_file_header h"
      and body: "list_all (\<lambda>l. \<not> is_file_header l) body"
      by (cases s) (auto simp: file_section_def)
    have "set s \<subseteq> set (split_newline prompt)"
      using that lines by auto
    then have "\<forall>l \<in> set s. CHR 0x0A \<notin> set l"
      using split_newline_no_newline by blast
    then have "split_newline (join_newline s) = s"
      using s by (intro split_join_newline) auto
    then show ?thesis
      using h body by (simp add: header_lines_def s list_all_iff)
  qed
  from 1 2 3 show ?thesis by (simp add: list_all_iff)
qed

theorem split_prompt_sections_witness:
  "split_prompt fallback_count_tokens
     ''## Changes\<newline>\<newline># File: a.py\<newline>+x\<newline>\<newline># File: b.py\<newline>-y'' 110 '''' =
   Inr [''## Changes\<newline>'', ''# File: a.py\<newline>+x\<newline>'', ''# File: b.py\<newline>-y'']"
proof -
  let ?prompt = "''## Changes\<newline>\<newline># File: a.py\<newline>+x\<newline>\<newline># File: b.py\<newline>-y''"
  let ?pre = "[''## Changes'', '''']"
  let ?secs = "[[''# File: a.py'', ''+x'', ''''], [''# File: b.py'', ''-y'']]"
  have a: "available_tokens fallback_count_tokens 110 '''' = 10"
    by (simp add: available_tokens_def system_tokens_def)
  have 1: "split_newline ?prompt = ?pre @ concat ?secs"
    by simp
  have 2: "\<forall>l \<in> set ?pre. \<not> is_file_header l \<and> 0 \<le> fallback_count_tokens l"
    by (simp add: is_file_header_def fallback_count_tokens_def)
  have 3: "list_all file_section ?secs"
    by (simp add: file_section_def is_file_header_def)
  have 4: "0 < available_tokens fallback_count_tokens 110 ''''"
    by (simp add: a)
  have 5: "available_tokens fallback_count_tokens 110 '''' < fallback_count_tokens ?prompt"
    by (simp add: a fallback_count_tokens_def)
  have 6: "sum_list (map fallback_count_tokens ?pre)
             \<le> available_tokens fallback_count_tokens 110 ''''"
    by (simp add: a fallback_count_tokens_def)
  have 7: "list_all (\<lambda>s. fallback_count_tokens (join_newline s)
                      \<le> available_tokens fallback_count_tokens 110 '''') ?secs"
    by (simp add: a fallback_count_tokens_def)
  show ?thesis
    using split_prompt_sections [OF 1 2 3 4 5 6 7] by (simp add: flush_def)
qed

text \<open>
  With the fallback counter and a budget of 3 tokens: the content before the header,
  \<^verbatim>\<open>a\nb\nc\nd\n\<close>, counts 3 tokens (2 without its last newline) and the only section
  counts 3 tokens, the whole prompt counts 5.  The four lines count one token each, so the fourth does not go into
  the leading chunk: three chunks are returned, not two.
\<close>

theorem split_prompt_sections_counterexample:
  "available_tokens fallback_count_tokens 103 '''' = 3
   \<and> fallback_count_tokens ''a\<newline>b\<newline>c\<newline>d\<newline>'' = 3
   \<and> fallback_count_tokens ''a\<newline>b\<newline>c\<newline>d'' = 2
   \<and> fallback_count_tokens ''# File: a.c'' = 3
   \<and> fallback_count_tokens ''a\<newline>b\<newline>c\<newline>d\<newline># File: a.c'' = 5
   \<and> split_prompt fallback_count_tokens ''a\<newline>b\<newline>c\<newline>d\<newline># File: a.c'' 103 '''' =
       Inr [''a\<newline>b\<newline>c'', ''d'', ''# File: a.c'']"
  by code_simp

text \<open>
  C1 (chunk bound).  The claim: every chunk that \<^verbatim>\<open>split_prompt\<close> returns and that does not
  come from force-splitting one over-long line counts at most \<^verbatim>\<open>available_tokens\<close>
  tokens, also when it starts with a re-emitted header.  The code does not keep this
  bound: in \<^verbatim>\<open>_split_large_section\<close>, after a chunk is flushed and the header is put at
  the start of the next one, the line is added when \<^verbatim>\<open>count_tokens(line) <= max_tokens\<close>,
  without the tokens of the header.  With the fallback counter and a budget of 3 tokens,
  the section \<^verbatim>\<open># File: a\nxxxxxxxx\<close> counts 5 tokens and each of its two lines counts 3,
  so no line is force-split; the second chunk returned is the whole section again, 5
  tokens.
\<close>

theorem split_prompt_header_chunk_over_budget:
  "available_tokens fallback_count_tokens 103 '''' = 3
   \<and> list_all (\<lambda>line. fallback_count_tokens line \<le> 3) (split_newline ''# File: a\<newline>xxxxxxxx'')
   \<and> split_prompt fallback_count_tokens ''# File: a\<newline>xxxxxxxx'' 103 '''' =
       Inr [''# File: a'', ''# File: a\<newline>xxxxxxxx'']
   \<and> fallback_count_tokens ''# File: a\<newline>xxxxxxxx'' = 5"
  by code_simp

text \<open>
  The same at a larger scale, with \<^verbatim>\<open>max_tokens = 204\<close> and so a budget of 104 tokens: a
  header of 412 characters and a line of 412 characters count 104 tokens each.  The
  second chunk returned is the whole prompt, 207 tokens, more than \<^verbatim>\<open>max_tokens\<close> itself.
\<close>

lemma split_prompt_chunk_over_max_tokens:
  "split_prompt fallback_count_tokens
      ((''# File: '' @ replicate 404 CHR ''p'') @ CHR 0x0A # replicate 412 CHR ''x'') 204 '''' =
     Inr [''# File: '' @ replicate 404 CHR ''p'',
          (''# File: '' @ replicate 404 CHR ''p'') @ CHR 0x0A # replicate 412 CHR ''x'']
   \<and> fallback_count_tokens
        ((''# File: '' @ replicate 404 CHR ''p'') @ CHR 0x0A # replicate 412 CHR ''x'') = 207"
proof -
  have a: "available_tokens fallback_count_tokens 204 '''' = 104"
    by (simp add: available_tokens_def system_tokens_def)
  have r: "replicate 7 CHR ''x'' \<noteq> ''# File:''"
    by (simp add: eval_nat_numeral)
  have c: "fallback_count_tokens
        ((''# File: '' @ replicate 404 CHR ''p'') @ CHR 0x0A # replicate 412 CHR ''x'') = 207"
    by (simp add: fallback_count_tokens_def)
  have "split_prompt fallback_count_tokens
      ((''# File: '' @ replicate 404 CHR ''p'') @ CHR 0x0A # replicate 412 CHR ''x'') 204 '''' =
     Inr [''# File: '' @ replicate 404 CHR ''p'',
          (''# File: '' @ replicate 404 CHR ''p'') @ CHR 0x0A # replicate 412 CHR ''x'']"
    by (rule two_line_prompt_returned_whole)
       (simp_all add: a r is_file_header_def fallback_count_tokens_def)
  with c show ?thesis by simp
qed

end
